theory Spec2Isabelle
  imports
    Complex_Main
    "HOL-Library.Multiset"
    "HOL-Library.Char_ord"
    "HOL-Library.List_Lexorder"
    "HOL-Library.Product_Lexorder"
begin

section \<open>The expense ledger of src/expense-tracker/main.py\<close>

text \<open>
  The program keeps one SQLite table, \<open>expenses\<close>, and exposes five operations on it
  (\<open>add_expense\<close>, \<open>list_expenses\<close>, \<open>summarize\<close>, \<open>edit_expense\<close>,
  \<open>delete_expense\<close>), an initializer \<open>init_db\<close> and a read-only resource
  \<open>categories\<close>. The embedding below follows the SQL statements of the source:
  the table is the list of its rows in scan order together with the AUTOINCREMENT
  counter, a statement is a function on that state, and every exception of the source
  is a value.

  Conventions.
  \<^item> Text columns and text arguments are \<open>string\<close>s (byte lists), compared as SQLite's
    BINARY collation compares them: lexicographically, byte by byte.
  \<^item> Python's \<open>None\<close> and SQL's NULL are \<open>None\<close> of an option type.
  \<^item> An argument with a default value has type \<open>'v arg\<close>: \<open>Omitted\<close> when the caller
    leaves it out, \<open>Passed v\<close> otherwise.
  \<^item> An amount argument is a Python number or \<open>None\<close>: an \<open>int\<close> of any size or a
    \<open>float\<close>, which may be infinite or NaN. The column \<open>amount REAL NOT NULL\<close> holds
    IEEE doubles other than NaN; they are the values of the type \<open>double\<close> below.
    Binding an argument into that column can fail or change the number, and both are
    part of the model. Text and other non-numbers as amounts are outside the data
    model of the program and are not modelled.
  \<^item> The engine's SUM aggregate adds doubles with rounding, by an algorithm that
    differs between SQLite versions. It is a parameter \<open>engine_sum\<close> of summarize: the
    function from the amounts of a group, in table order, to the total the engine
    reports (NULL when the total is not a number).
\<close>

subsection \<open>Rows, arguments, replies\<close>

text \<open>
  The schema of lines 21-28: \<open>id\<close>, \<open>date\<close>, \<open>amount\<close> and \<open>category\<close> are NOT NULL,
  \<open>subcategory\<close> and \<open>note\<close> may hold NULL. The columns \<open>id\<close> and \<open>note\<close> are named
  \<open>id_col\<close> and \<open>note_col\<close> here.
\<close>

record 'a expense =
  id_col :: int
  date :: string
  amount :: 'a
  category :: string
  subcategory :: "string option"
  note_col :: "string option"

datatype 'v arg = Omitted | Passed 'v

fun arg_default :: "'v \<Rightarrow> 'v arg \<Rightarrow> 'v" where
  "arg_default d Omitted = d"
| "arg_default d (Passed v) = v"

text \<open>
  The values of a REAL column: the finite doubles, by their numerical value, and the
  two infinities. NaN is not among them (the engine stores it as NULL), and \<open>-0.0\<close> is
  not distinguished from \<open>0.0\<close> (the two compare equal, and the column returns \<open>0.0\<close>
  for both). Every finite double is a rational number; the type has more rationals
  than there are doubles, which makes a statement about all of its values a statement
  about all doubles.
\<close>

datatype double = NegInf | Finite rat | PosInf

text \<open>A Python number as an argument: an \<open>int\<close>, a \<open>float\<close> that is a number, or NaN.\<close>

datatype py_number = PyInt int | PyFloat double | PyNaN

text \<open>
  The exception classes that the statements of the source can raise: two of sqlite3,
  and Python's OverflowError for an \<open>int\<close> that does not fit SQLite's INTEGER. All
  are subclasses of \<open>Exception\<close>.
\<close>

datatype py_error = IntegrityError string | OperationalError string | OverflowError string

fun str :: "py_error \<Rightarrow> string" where
  "str (IntegrityError m) = m"
| "str (OperationalError m) = m"
| "str (OverflowError m) = m"

text \<open>
  One row of the summarize query: \<open>category\<close>, \<open>total_amount\<close>, \<open>count\<close>. The total
  is NULL (\<open>None\<close>) when the engine's sum is not a number.
\<close>

datatype summary =
  Summary (summary_category: string) (total_amount: "double option") (count_rows: nat)

text \<open>
  What an operation hands back to its caller: one constructor per success payload of
  the source, and \<open>ErrorStatus m\<close> for \<open>{"status": "error", "message": m}\<close>.
\<close>

datatype 'a reply =
  AddSuccess int
| ExpenseRows "'a expense list"
| SummaryRows "summary list"
| EditSuccess nat
| DeleteSuccess nat
| ErrorStatus string

text \<open>A call either returns a value or lets an exception escape.\<close>

datatype 'r outcome = Returned 'r | Raised py_error

subsection \<open>The database file\<close>

text \<open>
  The file either has no \<open>expenses\<close> table yet, or holds its rows (in scan order) and
  the value of \<open>sqlite_sequence.seq\<close> for the table (0 while that row is absent).
\<close>

datatype 'a store = NoTable | Expenses "'a expense list" int

text \<open>The ledger: the records of the table (none while the table does not exist).\<close>

fun ledger :: "'a store \<Rightarrow> 'a expense list" where
  "ledger NoTable = []"
| "ledger (Expenses rows seq) = rows"

definition MAX_ROWID :: int where
  "MAX_ROWID = 9223372036854775807"

definition max_rowid :: "'a expense list \<Rightarrow> int" where
  "max_rowid rows = fold max (map id_col rows) 0"

text \<open>
  Opening the connection and reaching the table. \<open>io\<close> is the fault, if any, that the
  engine raises when the connection is opened (\<open>sqlite3.connect\<close>); a statement on a
  file without the table raises OperationalError.
\<close>

definition table_rows ::
  "py_error option \<Rightarrow> 'a store \<Rightarrow> py_error + ('a expense list \<times> int)" where
  "table_rows io db =
     (case io of
        Some e \<Rightarrow> Inl e
      | None \<Rightarrow>
          (case db of
             NoTable \<Rightarrow> Inl (OperationalError ''no such table: expenses'')
           | Expenses rows seq \<Rightarrow> Inr (rows, seq)))"

subsection \<open>Binding an amount into the REAL column\<close>

text \<open>
  A 64-bit integer stored in a REAL column becomes the nearest double, ties going to
  the even significand (the C conversion from \<open>int64\<close> to \<open>double\<close>). A double has a
  significand of 53 bits: \<open>shift_of m\<close> is the number of low bits of \<open>m\<close> that do
  not fit, for \<open>m \<le> 2^63\<close>.
\<close>

definition shift_of :: "nat \<Rightarrow> nat" where
  "shift_of m = length (filter (\<lambda>j. 2 ^ (53 + j) \<le> m) [0..<11])"

definition int64_to_double :: "int \<Rightarrow> rat" where
  "int64_to_double n =
     (let m = nat \<bar>n\<bar>;
          k = shift_of m;
          q = m div 2 ^ k;
          r = m mod 2 ^ k;
          q' = (if 2 ^ k < 2 * r \<or> (2 * r = 2 ^ k \<and> odd q) then q + 1 else q)
      in of_int (sgn n * int (q' * 2 ^ k)))"

text \<open>
  What \<open>execute\<close> binds for an amount argument, and what the REAL column makes of
  it: \<open>None\<close> and NaN are bound as NULL; a \<open>float\<close> is stored as it is; an \<open>int\<close>
  outside 64 bits raises OverflowError before the statement runs, and one inside is
  converted to a double.
\<close>

fun bind_amount :: "py_number option \<Rightarrow> py_error + double option" where
  "bind_amount None = Inr None"
| "bind_amount (Some PyNaN) = Inr None"
| "bind_amount (Some (PyFloat x)) = Inr (Some x)"
| "bind_amount (Some (PyInt n)) =
     (if - (2 ^ 63) \<le> n \<and> n < 2 ^ 63 then Inr (Some (Finite (int64_to_double n)))
      else Inl (OverflowError ''Python int too large to convert to SQLite INTEGER''))"

text \<open>
  INSERT INTO expenses(date, amount, category, subcategory, note), with the amount as
  the caller passed it. The parameters are bound first. With AUTOINCREMENT
  the new id is one more than the larger of the stored counter and the largest id in
  the table; when that is already the largest 64-bit integer the engine reports
  SQLITE_FULL. The NOT NULL columns are checked in column order. The result is the new
  id (\<open>lastrowid\<close>), the rows and the counter.
\<close>

definition insert_row ::
  "string option \<Rightarrow> py_number option \<Rightarrow> string option \<Rightarrow> string option \<Rightarrow> string option \<Rightarrow>
   double expense list \<Rightarrow> int \<Rightarrow> py_error + (int \<times> double expense list \<times> int)" where
  "insert_row d a c s n rows seq =
     (case bind_amount a of
        Inl e \<Rightarrow> Inl e
      | Inr a_bound \<Rightarrow>
     (let top = max seq (max_rowid rows) in
      if MAX_ROWID \<le> top then Inl (OperationalError ''database or disk is full'')
      else
        (case d of
           None \<Rightarrow> Inl (IntegrityError ''NOT NULL constraint failed: expenses.date'')
         | Some d' \<Rightarrow>
        (case a_bound of
           None \<Rightarrow> Inl (IntegrityError ''NOT NULL constraint failed: expenses.amount'')
         | Some a' \<Rightarrow>
        (case c of
           None \<Rightarrow> Inl (IntegrityError ''NOT NULL constraint failed: expenses.category'')
         | Some c' \<Rightarrow>
             Inr (top + 1,
                  rows @ [\<lparr>id_col = top + 1, date = d', amount = a', category = c',
                           subcategory = s, note_col = n\<rparr>],
                  top + 1))))))"

text \<open>
  The \<open>try ... except Exception as e: return {"status": "error", ...}\<close> of the five
  operations: an exception of the body is turned into an error reply, and the
  connection's context manager has rolled the transaction back, so the file is as it
  was before the call.
\<close>

definition guarded ::
  "string \<Rightarrow> 'a store \<Rightarrow> py_error + ('a reply \<times> 'a store) \<Rightarrow> 'a reply outcome \<times> 'a store" where
  "guarded prefix db body =
     (case body of
        Inr (r, db') \<Rightarrow> (Returned r, db')
      | Inl e \<Rightarrow> (Returned (ErrorStatus (prefix @ str e)), db))"

subsection \<open>init_db (lines 16-38)\<close>

text \<open>
  CREATE TABLE IF NOT EXISTS runs outside a transaction and is kept even when a later
  statement fails.
\<close>

fun create_table :: "'a store \<Rightarrow> 'a expense list \<times> int" where
  "create_table NoTable = ([], 0)"
| "create_table (Expenses rows seq) = (rows, seq)"

text \<open>
  After creating the table, init_db inserts the probe row
  \<open>('2000-01-01', 0, 'test')\<close> (the amount is the integer 0; subcategory and note take
  the column default \<open>''\<close>), deletes every row whose category is \<open>'test'\<close> and
  commits. An exception is printed and raised again.
\<close>

definition init_db ::
  "py_error option \<Rightarrow> double store \<Rightarrow> unit outcome \<times> double store" where
  "init_db io db =
     (case io of
        Some e \<Rightarrow> (Raised e, db)
      | None \<Rightarrow>
          (case create_table db of (rows, seq) \<Rightarrow>
             (case insert_row (Some ''2000-01-01'') (Some (PyInt 0)) (Some ''test'')
                     (Some '''') (Some '''') rows seq of
                Inl e \<Rightarrow> (Raised e, Expenses rows seq)
              | Inr (i, rows', seq') \<Rightarrow>
                  (Returned (), Expenses (filter (\<lambda>r. category r \<noteq> ''test'') rows') seq'))))"

subsection \<open>add_expense (lines 42-61)\<close>

definition add_expense ::
  "py_error option \<Rightarrow> double store \<Rightarrow> string option \<Rightarrow> py_number option \<Rightarrow> string option \<Rightarrow>
   string option arg \<Rightarrow> string option arg \<Rightarrow> double reply outcome \<times> double store" where
  "add_expense io db date' amount' category' subcategory' note' =
     guarded ''Database error: '' db
       (case table_rows io db of
          Inl e \<Rightarrow> Inl e
        | Inr (rows, seq) \<Rightarrow>
            (case insert_row date' amount' category'
                    (arg_default (Some '''') subcategory') (arg_default (Some '''') note')
                    rows seq of
               Inl e \<Rightarrow> Inl e
             | Inr (i, rows', seq') \<Rightarrow> Inr (AddSuccess i, Expenses rows' seq')))"

subsection \<open>list_expenses (lines 64-81)\<close>

text \<open>
  \<open>date BETWEEN ? AND ?\<close>: both comparisons on text; with a NULL bound the condition
  is NULL and the row is not selected.
\<close>

definition between_dates :: "string option \<Rightarrow> string option \<Rightarrow> string \<Rightarrow> bool" where
  "between_dates start_date end_date d =
     (case start_date of
        None \<Rightarrow> False
      | Some s \<Rightarrow> (case end_date of None \<Rightarrow> False | Some e \<Rightarrow> s \<le> d \<and> d \<le> e))"

text \<open>\<open>ORDER BY date DESC, id DESC\<close>.\<close>

definition order_by_date_id_desc :: "'a expense list \<Rightarrow> 'a expense list" where
  "order_by_date_id_desc rows = rev (sort_key (\<lambda>r. (date r, id_col r)) rows)"

definition list_expenses ::
  "py_error option \<Rightarrow> 'a store \<Rightarrow> string option \<Rightarrow> string option \<Rightarrow>
   'a reply outcome \<times> 'a store" where
  "list_expenses io db start_date end_date =
     guarded ''Error listing expenses: '' db
       (case table_rows io db of
          Inl e \<Rightarrow> Inl e
        | Inr (rows, seq) \<Rightarrow>
            Inr (ExpenseRows
                   (order_by_date_id_desc (filter (\<lambda>r. between_dates start_date end_date (date r)) rows)),
                 db))"

subsection \<open>summarize (lines 84-106)\<close>

text \<open>
  \<open>if category:\<close> is Python's truth test: it holds for a non-empty string only, so
  \<open>AND category = ?\<close> is added to the query for neither \<open>None\<close> nor \<open>""\<close>.
\<close>

fun category_filter :: "string option \<Rightarrow> string \<Rightarrow> bool" where
  "category_filter None c = True"
| "category_filter (Some k) c = (if k \<noteq> [] then c = k else True)"

text \<open>
  \<open>GROUP BY category\<close> with \<open>SUM(amount)\<close> and \<open>COUNT(*)\<close>: one row per category that
  occurs among the selected rows. The groups are formed in ascending order of the
  category. \<open>engine_sum\<close> is the engine's aggregate, applied to the amounts of the group.
\<close>

definition group_by_category ::
  "(double list \<Rightarrow> double option) \<Rightarrow> double expense list \<Rightarrow> summary list" where
  "group_by_category engine_sum rows =
     map (\<lambda>c. Summary c
                 (engine_sum (map amount (filter (\<lambda>r. category r = c) rows)))
                 (length (filter (\<lambda>r. category r = c) rows)))
         (sort (remdups (map category rows)))"

text \<open>
  The order of SQL on the totals: NULL is below every number, then come \<open>-inf\<close>, the
  finite numbers by size, and \<open>+inf\<close>. \<open>total_rank\<close> maps a total to a pair that
  is ordered that way.
\<close>

fun sql_le :: "double option \<Rightarrow> double option \<Rightarrow> bool" where
  "sql_le None y = True"
| "sql_le (Some x) None = False"
| "sql_le (Some NegInf) (Some y) = True"
| "sql_le (Some (Finite p)) (Some NegInf) = False"
| "sql_le (Some (Finite p)) (Some (Finite q)) = (p \<le> q)"
| "sql_le (Some (Finite p)) (Some PosInf) = True"
| "sql_le (Some PosInf) (Some y) = (y = PosInf)"

fun total_rank :: "double option \<Rightarrow> nat \<times> rat" where
  "total_rank None = (0, 0)"
| "total_rank (Some NegInf) = (1, 0)"
| "total_rank (Some (Finite q)) = (2, q)"
| "total_rank (Some PosInf) = (3, 0)"

text \<open>
  \<open>ORDER BY total_amount DESC\<close>. The order among groups of equal total is the
  engine's; here it is the reverse of the grouping order.
\<close>

definition order_by_total_desc :: "summary list \<Rightarrow> summary list" where
  "order_by_total_desc gs = rev (sort_key (\<lambda>g. total_rank (total_amount g)) gs)"

definition summarize ::
  "(double list \<Rightarrow> double option) \<Rightarrow> py_error option \<Rightarrow> double store \<Rightarrow>
   string option \<Rightarrow> string option \<Rightarrow> string option arg \<Rightarrow>
   double reply outcome \<times> double store" where
  "summarize engine_sum io db start_date end_date category' =
     guarded ''Error summarizing expenses: '' db
       (case table_rows io db of
          Inl e \<Rightarrow> Inl e
        | Inr (rows, seq) \<Rightarrow>
            Inr (SummaryRows
                   (order_by_total_desc
                      (group_by_category engine_sum
                         (filter (\<lambda>r. between_dates start_date end_date (date r) \<and>
                                       category_filter (arg_default None category') (category r))
                                 rows))),
                 db))"

subsection \<open>edit_expense (lines 109-149)\<close>

text \<open>\<open>WHERE date = ? AND category = ?\<close>: a NULL parameter equals nothing.\<close>

definition edit_matches :: "string option \<Rightarrow> string option \<Rightarrow> 'a expense \<Rightarrow> bool" where
  "edit_matches d c r = (d = Some (date r) \<and> c = Some (category r))"

text \<open>\<open>COALESCE(?, column)\<close>: the parameter unless it is NULL.\<close>

fun coalesce :: "'v option \<Rightarrow> 'v option \<Rightarrow> 'v option" where
  "coalesce (Some v) old = Some v"
| "coalesce None old = old"

fun coalesce_text :: "string option \<Rightarrow> string \<Rightarrow> string" where
  "coalesce_text (Some v) old = v"
| "coalesce_text None old = old"

definition set_fields ::
  "'a \<Rightarrow> string option \<Rightarrow> string option \<Rightarrow> string option \<Rightarrow> 'a expense \<Rightarrow> 'a expense" where
  "set_fields a nd ns nn r =
     r\<lparr>amount := a,
       date := coalesce_text nd (date r),
       subcategory := coalesce ns (subcategory r),
       note_col := coalesce nn (note_col r)\<rparr>"

text \<open>
  The UPDATE statement, with the amount as the caller passed it. The parameters are
  bound first, so an \<open>int\<close> beyond 64 bits fails whether or not a row matches. An
  amount bound as NULL (\<open>None\<close> or NaN) violates NOT NULL on the first row the
  WHERE clause selects; the statement is then undone as a whole. \<open>rowcount\<close> is the
  number of rows selected.
\<close>

definition update_rows ::
  "string option \<Rightarrow> string option \<Rightarrow> py_number option \<Rightarrow> string option \<Rightarrow> string option \<Rightarrow>
   string option \<Rightarrow> double expense list \<Rightarrow> py_error + (nat \<times> double expense list)" where
  "update_rows d c new_amount nd ns nn rows =
     (case bind_amount new_amount of
        Inl e \<Rightarrow> Inl e
      | Inr None \<Rightarrow>
          (if filter (edit_matches d c) rows = [] then Inr (0, rows)
           else Inl (IntegrityError ''NOT NULL constraint failed: expenses.amount''))
      | Inr (Some a) \<Rightarrow>
          Inr (length (filter (edit_matches d c) rows),
               map (\<lambda>r. if edit_matches d c r then set_fields a nd ns nn r else r) rows))"

definition edit_expense ::
  "py_error option \<Rightarrow> double store \<Rightarrow> string option \<Rightarrow> string option \<Rightarrow> py_number option \<Rightarrow>
   string option arg \<Rightarrow> string option arg \<Rightarrow> string option arg \<Rightarrow>
   double reply outcome \<times> double store" where
  "edit_expense io db date' category' new_amount new_date new_subcategory new_note =
     guarded ''Error editing expense: '' db
       (case table_rows io db of
          Inl e \<Rightarrow> Inl e
        | Inr (rows, seq) \<Rightarrow>
            (case update_rows date' category' new_amount
                    (arg_default None new_date) (arg_default None new_subcategory)
                    (arg_default None new_note) rows of
               Inl e \<Rightarrow> Inl e
             | Inr (n, rows') \<Rightarrow> Inr (EditSuccess n, Expenses rows' seq)))"

subsection \<open>delete_expense (lines 152-170)\<close>

text \<open>\<open>WHERE date = ? AND category = ? AND note = ?\<close>; a NULL note equals nothing.\<close>

definition delete_matches ::
  "string option \<Rightarrow> string option \<Rightarrow> string option \<Rightarrow> 'a expense \<Rightarrow> bool" where
  "delete_matches d c n r =
     (d = Some (date r) \<and> c = Some (category r) \<and> n \<noteq> None \<and> n = note_col r)"

definition delete_expense ::
  "py_error option \<Rightarrow> 'a store \<Rightarrow> string option \<Rightarrow> string option \<Rightarrow> string option arg \<Rightarrow>
   'a reply outcome \<times> 'a store" where
  "delete_expense io db date' category' note' =
     guarded ''Error deleting expense: '' db
       (case table_rows io db of
          Inl e \<Rightarrow> Inl e
        | Inr (rows, seq) \<Rightarrow>
            Inr (DeleteSuccess
                   (length (filter (delete_matches date' category' (arg_default (Some '''') note')) rows)),
                 Expenses
                   (filter (\<lambda>r. \<not> delete_matches date' category' (arg_default (Some '''') note') r) rows)
                   seq))"

subsection \<open>categories (lines 173-197)\<close>

text \<open>
  What \<open>open(CATEGORIES_PATH).read()\<close> does: the file is missing, another exception
  is raised (with its message), or the text is read.
\<close>

datatype read_result = FileNotFound | ReadFailed string | Contents string

datatype json = JString string | JArray "json list" | JObject "(string \<times> json) list"

text \<open>
  The resource is either the file's text as it is, or \<open>json.dumps\<close> of a value with
  the given \<open>indent\<close>.
\<close>

datatype document = Verbatim string | Dumps json "nat option"

definition default_categories :: json where
  "default_categories =
     JObject [(''categories'',
       JArray [JString ''Food & Dining'', JString ''Transportation'', JString ''Shopping'',
               JString ''Entertainment'', JString ''Bills & Utilities'', JString ''Healthcare'',
               JString ''Travel'', JString ''Education'', JString ''Business'',
               JString ''Other''])]"

definition categories :: "read_result \<Rightarrow> document" where
  "categories f =
     (case f of
        Contents s \<Rightarrow> Verbatim s
      | FileNotFound \<Rightarrow> Dumps default_categories (Some 2)
      | ReadFailed m \<Rightarrow>
          Dumps (JObject [(''error'', JString (''Could not load categories: '' @ m))]) None)"

text \<open>The category names of a dumped catalog document, in order.\<close>

fun json_strings :: "json list \<Rightarrow> string list option" where
  "json_strings [] = Some []"
| "json_strings (JString s # js) = map_option (Cons s) (json_strings js)"
| "json_strings (j # js) = None"

fun catalog_names :: "document \<Rightarrow> string list option" where
  "catalog_names (Dumps (JObject [(k, JArray js)]) i) =
     (if k = ''categories'' then json_strings js else None)"
| "catalog_names doc = None"

section \<open>Properties\<close>

subsection \<open>Opening the table, catching exceptions\<close>

lemma table_rows_open [simp]: "table_rows None (Expenses rows seq) = Inr (rows, seq)"
  by (simp add: table_rows_def)

lemma table_rows_fault [simp]: "table_rows (Some e) db = Inl e"
  by (simp add: table_rows_def)

lemma table_rows_missing [simp]:
  "table_rows None NoTable = Inl (OperationalError ''no such table: expenses'')"
  by (simp add: table_rows_def)

lemma table_rows_Inr: "table_rows io db = Inr (rows, seq) \<Longrightarrow> io = None \<and> db = Expenses rows seq"
  by (auto simp: table_rows_def split: option.splits store.splits)

lemma guarded_Inr [simp]: "guarded p db (Inr (r, db')) = (Returned r, db')"
  by (simp add: guarded_def)

lemma guarded_Inl [simp]: "guarded p db (Inl e) = (Returned (ErrorStatus (p @ str e)), db)"
  by (simp add: guarded_def)

lemma edit_matches_Some [simp]:
  "edit_matches (Some d) (Some c) = (\<lambda>r. date r = d \<and> category r = c)"
  by (auto simp: edit_matches_def)

lemma delete_matches_Some [simp]:
  "delete_matches (Some d) (Some c) (Some n) =
     (\<lambda>r. date r = d \<and> category r = c \<and> note_col r = Some n)"
  by (auto simp: delete_matches_def)

subsection \<open>The conversion of integers to doubles\<close>

lemma shift_of_small: "m < 2 ^ 53 \<Longrightarrow> shift_of m = 0"
proof -
  assume m: "m < 2 ^ 53"
  have "\<not> 2 ^ (53 + j) \<le> m" for j :: nat
  proof -
    have "(2::nat) ^ 53 \<le> 2 ^ (53 + j)" by (rule power_increasing) simp_all
    with m show ?thesis by linarith
  qed
  then show ?thesis by (simp add: shift_of_def)
qed

text \<open>An integer of at most 53 bits is a double, and is stored as itself.\<close>

lemma upt_11: "[0..<11] = [0, 1, 2, 3, 4, 5, 6, 7, 8, 9, 10::nat]"
  by (simp add: upt_rec)

lemma shift_of_2_53: "shift_of 9007199254740992 = 1"
  by (simp add: shift_of_def upt_11)

lemma shift_of_2_53_1: "shift_of 9007199254740993 = 1"
  by (simp add: shift_of_def upt_11)

lemma int64_to_double_exact:
  assumes "\<bar>n\<bar> \<le> 2 ^ 53"
  shows "int64_to_double n = of_int n"
proof (cases "\<bar>n\<bar> < 2 ^ 53")
  case True
  then have "nat \<bar>n\<bar> < 2 ^ 53" by simp
  then have "shift_of (nat \<bar>n\<bar>) = 0" by (rule shift_of_small)
  then have "int64_to_double n = of_int (sgn n * \<bar>n\<bar>)"
    by (simp add: int64_to_double_def Let_def)
  then show ?thesis by (simp add: mult_sgn_abs)
next
  case False
  with assms have "n = 9007199254740992 \<or> n = - 9007199254740992"
    by (auto simp: abs_if split: if_splits)
  then show ?thesis
    by (auto simp: int64_to_double_def shift_of_2_53 Let_def)
qed

text \<open>The first integer that is not: \<open>2^53 + 1\<close> is stored as \<open>2^53\<close>.\<close>

lemma int64_to_double_rounds: "int64_to_double 9007199254740993 = 9007199254740992"
  by (simp add: int64_to_double_def shift_of_2_53_1 Let_def)

lemma bind_amount_small_int:
  assumes "\<bar>n\<bar> \<le> 2 ^ 53"
  shows "bind_amount (Some (PyInt n)) = Inr (Some (Finite (of_int n)))"
proof -
  from assms have "- (2 ^ 63) \<le> n \<and> n < 2 ^ 63"
    by (auto simp: abs_if split: if_splits)
  then show ?thesis using assms by (simp add: int64_to_double_exact)
qed

subsection \<open>The INSERT statement\<close>

lemma fold_max_bounds:
  "(a::int) \<le> fold max xs a \<and> (\<forall>x \<in> set xs. x \<le> fold max xs a)"
proof (induction xs arbitrary: a)
  case Nil
  then show ?case by simp
next
  case (Cons y ys)
  have "max y a \<le> fold max ys (max y a)" using Cons.IH by blast
  moreover have "\<forall>x \<in> set ys. x \<le> fold max ys (max y a)" using Cons.IH by blast
  ultimately show ?case by auto
qed

lemma max_rowid_ge: "r \<in> set rows \<Longrightarrow> id_col r \<le> max_rowid rows"
  using fold_max_bounds [of 0 "map id_col rows"] by (auto simp: max_rowid_def)

lemma insert_row_ok:
  "bind_amount a = Inr (Some x) \<Longrightarrow> max seq (max_rowid rows) < MAX_ROWID \<Longrightarrow>
   insert_row (Some d) a (Some c) s n rows seq =
     Inr (max seq (max_rowid rows) + 1,
          rows @ [\<lparr>id_col = max seq (max_rowid rows) + 1, date = d, amount = x, category = c,
                   subcategory = s, note_col = n\<rparr>],
          max seq (max_rowid rows) + 1)"
  by (auto simp: insert_row_def Let_def)

text \<open>An amount that is bound as NULL, or not bound at all, inserts nothing.\<close>

lemma insert_row_null_amount:
  "bind_amount a = Inr None \<Longrightarrow> \<exists>e. insert_row d a c s n rows seq = Inl e"
  by (auto simp: insert_row_def Let_def split: option.splits)

lemma insert_row_unbound_amount:
  "bind_amount a = Inl e \<Longrightarrow> insert_row d a c s n rows seq = Inl e"
  by (simp add: insert_row_def)

subsection \<open>The initializer on a new file\<close>

lemma max_rowid_Nil [simp]: "max_rowid [] = 0"
  by (simp add: max_rowid_def)

lemma room_small [simp]: "(1::int) < MAX_ROWID" "(0::int) < MAX_ROWID"
  by (simp_all add: MAX_ROWID_def)

lemma init_db_fresh: "init_db None NoTable = (Returned (), Expenses [] 1)"
proof -
  have "bind_amount (Some (PyInt 0)) = Inr (Some (Finite 0))"
    using bind_amount_small_int [of 0] by simp
  then have "insert_row (Some ''2000-01-01'') (Some (PyInt 0)) (Some ''test'')
               (Some []) (Some []) [] 0 =
             Inr (1, [\<lparr>id_col = 1, date = ''2000-01-01'', amount = Finite 0,
                       category = ''test'', subcategory = Some [], note_col = Some []\<rparr>], 1)"
    using insert_row_ok [of "Some (PyInt 0)" "Finite 0" 0 "[]"] by simp
  then show ?thesis by (simp add: init_db_def)
qed

text \<open>
  C2. Claim: initialization is idempotent; invoking the initializer again leaves
  every existing expense record unchanged, no record is lost. The code does not do
  that: the probe row is removed with \<open>DELETE FROM expenses WHERE category = 'test'\<close>,
  which also removes every record of the ledger whose category is \<open>test\<close>. Run from a
  new file: init_db, then add_expense("2024-01-02", 1, "test", note="mine") stores the
  record with id 2; the next init_db (a restart of the process) returns normally and
  leaves the ledger empty, the counter at 3.
\<close>

theorem init_db_deletes_test_category:
  "snd (add_expense None (snd (init_db None NoTable)) (Some ''2024-01-02'') (Some (PyInt 1))
          (Some ''test'') Omitted (Passed (Some ''mine''))) =
     Expenses [\<lparr>id_col = 2, date = ''2024-01-02'', amount = Finite 1, category = ''test'',
                subcategory = Some [], note_col = Some ''mine''\<rparr>] 2 \<and>
   init_db None
     (Expenses [\<lparr>id_col = 2, date = ''2024-01-02'', amount = Finite 1, category = ''test'',
                 subcategory = Some [], note_col = Some ''mine''\<rparr>] 2) =
     (Returned (), Expenses [] 3)"
proof -
  have one: "bind_amount (Some (PyInt 1)) = Inr (Some (Finite 1))"
    using bind_amount_small_int [of 1] by simp
  have zero: "bind_amount (Some (PyInt 0)) = Inr (Some (Finite 0))"
    using bind_amount_small_int [of 0] by simp
  have add: "snd (add_expense None (snd (init_db None NoTable)) (Some ''2024-01-02'')
          (Some (PyInt 1)) (Some ''test'') Omitted (Passed (Some ''mine''))) =
     Expenses [\<lparr>id_col = 2, date = ''2024-01-02'', amount = Finite 1, category = ''test'',
                subcategory = Some [], note_col = Some ''mine''\<rparr>] 2"
    by (simp add: init_db_fresh add_expense_def insert_row_ok [OF one])
  have room: "max 2 (max_rowid
       [\<lparr>id_col = 2, date = ''2024-01-02'', amount = Finite 1, category = ''test'',
         subcategory = Some [], note_col = Some ''mine''\<rparr>]) < MAX_ROWID"
    by (simp add: max_rowid_def MAX_ROWID_def)
  have again: "init_db None
     (Expenses [\<lparr>id_col = 2, date = ''2024-01-02'', amount = Finite 1, category = ''test'',
                 subcategory = Some [], note_col = Some ''mine''\<rparr>] 2) =
     (Returned (), Expenses [] 3)"
    by (simp add: init_db_def insert_row_ok [OF zero room] max_rowid_def)
  from add again show ?thesis by blast
qed

text \<open>
  C6, as the claim states it: on a freshly initialized, empty store the first add
  returns id 1. It does not: the probe row of init_db took id 1, and with
  AUTOINCREMENT an id is never given out again.
\<close>

theorem first_add_id_1_counterexample:
  "fst (add_expense None (snd (init_db None NoTable)) (Some ''2024-01-01'')
          (Some (PyFloat (Finite 12.5))) (Some ''Food & Dining'') Omitted Omitted) \<noteq>
     Returned (AddSuccess 1)"
  by (simp add: init_db_fresh add_expense_def insert_row_ok)

text \<open>
  C6, amended: on a new file init_db succeeds and leaves an empty ledger with the
  counter at 1; the first add_expense then succeeds, returns id 2 and stores exactly
  the record it was given: the example of the specification, and likewise every
  date, category and amount that is a \<open>float\<close> other than NaN. With an \<open>int\<close> as
  amount the first add returns id 2 as well when the \<open>int\<close> has at most 64 bits, and
  stores the double nearest to it; beyond 64 bits it returns the error reply and
  stores nothing.
\<close>

theorem first_add_returns_id_2:
  "init_db None NoTable = (Returned (), Expenses [] 1) \<and>
   add_expense None (snd (init_db None NoTable)) (Some ''2024-01-01'')
       (Some (PyFloat (Finite 12.5))) (Some ''Food & Dining'') Omitted Omitted =
     (Returned (AddSuccess 2),
      Expenses [\<lparr>id_col = 2, date = ''2024-01-01'', amount = Finite 12.5,
                 category = ''Food & Dining'', subcategory = Some [],
                 note_col = Some []\<rparr>] 2) \<and>
   add_expense None (snd (init_db None NoTable)) (Some d) (Some (PyFloat x)) (Some c) sub nt =
     (Returned (AddSuccess 2),
      Expenses [\<lparr>id_col = 2, date = d, amount = x, category = c,
                 subcategory = arg_default (Some []) sub,
                 note_col = arg_default (Some []) nt\<rparr>] 2) \<and>
   add_expense None (snd (init_db None NoTable)) (Some d) (Some (PyInt k)) (Some c) sub nt =
     (if - (2 ^ 63) \<le> k \<and> k < 2 ^ 63
      then (Returned (AddSuccess 2),
            Expenses [\<lparr>id_col = 2, date = d, amount = Finite (int64_to_double k), category = c,
                       subcategory = arg_default (Some []) sub,
                       note_col = arg_default (Some []) nt\<rparr>] 2)
      else (Returned (ErrorStatus
              ''Database error: Python int too large to convert to SQLite INTEGER''),
            Expenses [] 1))"
proof -
  have float: "add_expense None (snd (init_db None NoTable)) (Some d') (Some (PyFloat y))
       (Some c') sub' nt' =
     (Returned (AddSuccess 2),
      Expenses [\<lparr>id_col = 2, date = d', amount = y, category = c',
                 subcategory = arg_default (Some []) sub',
                 note_col = arg_default (Some []) nt'\<rparr>] 2)" for d' y c' sub' nt'
    by (simp add: init_db_fresh add_expense_def insert_row_ok)
  have int: "add_expense None (snd (init_db None NoTable)) (Some d) (Some (PyInt k)) (Some c) sub nt =
     (if - (2 ^ 63) \<le> k \<and> k < 2 ^ 63
      then (Returned (AddSuccess 2),
            Expenses [\<lparr>id_col = 2, date = d, amount = Finite (int64_to_double k), category = c,
                       subcategory = arg_default (Some []) sub,
                       note_col = arg_default (Some []) nt\<rparr>] 2)
      else (Returned (ErrorStatus
              ''Database error: Python int too large to convert to SQLite INTEGER''),
            Expenses [] 1))"
    by (simp add: init_db_fresh add_expense_def insert_row_ok insert_row_unbound_amount)
  have example: "add_expense None (snd (init_db None NoTable)) (Some ''2024-01-01'')
       (Some (PyFloat (Finite 12.5))) (Some ''Food & Dining'') Omitted Omitted =
     (Returned (AddSuccess 2),
      Expenses [\<lparr>id_col = 2, date = ''2024-01-01'', amount = Finite 12.5,
                 category = ''Food & Dining'', subcategory = Some [],
                 note_col = Some []\<rparr>] 2)"
    by (simp add: float)
  from init_db_fresh example float [of d x c sub nt] int
  show ?thesis by blast
qed

subsection \<open>The category catalog\<close>

text \<open>
  C8. When the catalog file does not exist, categories() returns the dump of the
  default document, whose list is exactly the ten documented names in the documented
  order.
\<close>

theorem categories_default:
  "categories FileNotFound = Dumps default_categories (Some 2) \<and>
   catalog_names (categories FileNotFound) =
     Some [''Food & Dining'', ''Transportation'', ''Shopping'', ''Entertainment'',
           ''Bills & Utilities'', ''Healthcare'', ''Travel'', ''Education'', ''Business'',
           ''Other''] \<and>
   map_option length (catalog_names (categories FileNotFound)) = Some 10"
  by (simp add: categories_def default_categories_def)

subsection \<open>edit_expense with a null amount\<close>

text \<open>
  C10. \<open>new_amount\<close> has no default value, so a call always passes it; a null amount
  is \<open>None\<close>. edit_expense with \<open>new_amount = None\<close> never changes the file, whatever
  the other arguments, the file and the engine's state are. On an existing table, with a
  date and a category given: if some record has that date and category the reply is
  the error of the NOT NULL constraint on \<open>amount\<close> and the ledger is as before; if
  none has, the reply is success with \<open>updated_rows = 0\<close>.
\<close>

theorem edit_null_amount:
  "snd (edit_expense io db d c None nd ns nn) = db \<and>
   edit_expense None (Expenses rows seq) (Some d') (Some c') None nd ns nn =
     (if \<exists>r \<in> set rows. date r = d' \<and> category r = c'
      then (Returned (ErrorStatus
              ''Error editing expense: NOT NULL constraint failed: expenses.amount''),
            Expenses rows seq)
      else (Returned (EditSuccess 0), Expenses rows seq))"
proof -
  have unchanged: "snd (edit_expense io db d c None nd ns nn) = db"
  proof (cases "table_rows io db")
    case (Inl e)
    then show ?thesis by (simp add: edit_expense_def)
  next
    case (Inr p)
    then obtain rows0 seq0 where p: "p = (rows0, seq0)" by (cases p)
    from Inr p have db: "db = Expenses rows0 seq0"
      by (simp add: table_rows_Inr)
    show ?thesis using Inr p db
      by (simp add: edit_expense_def update_rows_def)
  qed
  have "filter (edit_matches (Some d') (Some c')) rows = [] \<longleftrightarrow>
          \<not> (\<exists>r \<in> set rows. date r = d' \<and> category r = c')"
    by (simp add: filter_empty_conv)
  then have "edit_expense None (Expenses rows seq) (Some d') (Some c') None nd ns nn =
     (if \<exists>r \<in> set rows. date r = d' \<and> category r = c'
      then (Returned (ErrorStatus
              ''Error editing expense: NOT NULL constraint failed: expenses.amount''),
            Expenses rows seq)
      else (Returned (EditSuccess 0), Expenses rows seq))"
    by (simp add: edit_expense_def update_rows_def)
  with unchanged show ?thesis by blast
qed

text \<open>
  The two cases at a concrete ledger of one record: the pair that matches it, and a
  date that does not.
\<close>

theorem edit_null_amount_witness:
  "edit_expense None
     (Expenses [\<lparr>id_col = 2, date = ''2024-01-01'', amount = Finite 12.5,
                 category = ''Food & Dining'', subcategory = Some [], note_col = Some []\<rparr>] 2)
     (Some ''2024-01-01'') (Some ''Food & Dining'') None Omitted Omitted Omitted =
     (Returned (ErrorStatus
        ''Error editing expense: NOT NULL constraint failed: expenses.amount''),
      Expenses [\<lparr>id_col = 2, date = ''2024-01-01'', amount = Finite 12.5,
                 category = ''Food & Dining'', subcategory = Some [], note_col = Some []\<rparr>] 2) \<and>
   edit_expense None
     (Expenses [\<lparr>id_col = 2, date = ''2024-01-01'', amount = Finite 12.5,
                 category = ''Food & Dining'', subcategory = Some [], note_col = Some []\<rparr>] 2)
     (Some ''2024-01-02'') (Some ''Food & Dining'') None Omitted Omitted Omitted =
     (Returned (EditSuccess 0),
      Expenses [\<lparr>id_col = 2, date = ''2024-01-01'', amount = Finite 12.5,
                 category = ''Food & Dining'', subcategory = Some [], note_col = Some []\<rparr>] 2)"
  using
    edit_null_amount [of None "Expenses [] 0" None None Omitted Omitted Omitted
      "[\<lparr>id_col = 2, date = ''2024-01-01'', amount = Finite 12.5,
          category = ''Food & Dining'', subcategory = Some [], note_col = Some []\<rparr>]" 2
      "''2024-01-01''" "''Food & Dining''"]
    edit_null_amount [of None "Expenses [] 0" None None Omitted Omitted Omitted
      "[\<lparr>id_col = 2, date = ''2024-01-01'', amount = Finite 12.5,
          category = ''Food & Dining'', subcategory = Some [], note_col = Some []\<rparr>]" 2
      "''2024-01-02''" "''Food & Dining''"]
  by simp

subsection \<open>delete_expense\<close>

text \<open>
  C5. delete_expense(date, category, note) on an existing table removes exactly the
  records whose date, category and note equal the arguments, keeps all others as they
  are and in their order, and returns the number of records removed. Leaving \<open>note\<close>
  out is passing \<open>""\<close>: a record with another note stays in the ledger even when its
  date and category match. When no record matches, the reply is success with
  \<open>deleted_rows = 0\<close> and the ledger is unchanged.
\<close>

theorem delete_expense_exact:
  "delete_expense None (Expenses rows seq) (Some d) (Some c) (Passed (Some n)) =
     (Returned (DeleteSuccess
        (length (filter (\<lambda>r. date r = d \<and> category r = c \<and> note_col r = Some n) rows))),
      Expenses (filter (\<lambda>r. \<not> (date r = d \<and> category r = c \<and> note_col r = Some n)) rows) seq) \<and>
   delete_expense None (Expenses rows seq) (Some d) (Some c) Omitted =
     delete_expense None (Expenses rows seq) (Some d) (Some c) (Passed (Some '''')) \<and>
   (\<forall>r \<in> set rows. note_col r \<noteq> Some '''' \<longrightarrow>
      r \<in> set (ledger (snd (delete_expense None (Expenses rows seq) (Some d) (Some c) Omitted)))) \<and>
   ((\<forall>r \<in> set rows. \<not> (date r = d \<and> category r = c \<and> note_col r = Some n)) \<longrightarrow>
      delete_expense None (Expenses rows seq) (Some d) (Some c) (Passed (Some n)) =
        (Returned (DeleteSuccess 0), Expenses rows seq))"
proof -
  have none: "(\<forall>r \<in> set rows. \<not> (date r = d \<and> category r = c \<and> note_col r = Some n)) \<Longrightarrow>
      filter (\<lambda>r. date r = d \<and> category r = c \<and> note_col r = Some n) rows = [] \<and>
      filter (\<lambda>r. \<not> (date r = d \<and> category r = c \<and> note_col r = Some n)) rows = rows"
    by (simp add: filter_empty_conv filter_id_conv)
  show ?thesis
    using none by (auto simp: delete_expense_def)
qed

text \<open>
  Two records of the same date and category, one with an empty note and one with the
  note \<open>lunch\<close>: the default note removes the first only, and a note that no record
  has removes nothing.
\<close>

theorem delete_expense_exact_witness:
  "delete_expense None
     (Expenses [\<lparr>id_col = 2, date = ''2024-01-01'', amount = Finite 10, category = ''Food'',
                 subcategory = Some '''', note_col = Some ''''\<rparr>,
                \<lparr>id_col = 3, date = ''2024-01-01'', amount = Finite 20, category = ''Food'',
                 subcategory = Some '''', note_col = Some ''lunch''\<rparr>] 3)
     (Some ''2024-01-01'') (Some ''Food'') Omitted =
     (Returned (DeleteSuccess 1),
      Expenses [\<lparr>id_col = 3, date = ''2024-01-01'', amount = Finite 20, category = ''Food'',
                 subcategory = Some '''', note_col = Some ''lunch''\<rparr>] 3) \<and>
   delete_expense None
     (Expenses [\<lparr>id_col = 2, date = ''2024-01-01'', amount = Finite 10, category = ''Food'',
                 subcategory = Some '''', note_col = Some ''''\<rparr>,
                \<lparr>id_col = 3, date = ''2024-01-01'', amount = Finite 20, category = ''Food'',
                 subcategory = Some '''', note_col = Some ''lunch''\<rparr>] 3)
     (Some ''2024-01-01'') (Some ''Food'') (Passed (Some ''dinner'')) =
     (Returned (DeleteSuccess 0),
      Expenses [\<lparr>id_col = 2, date = ''2024-01-01'', amount = Finite 10, category = ''Food'',
                 subcategory = Some '''', note_col = Some ''''\<rparr>,
                \<lparr>id_col = 3, date = ''2024-01-01'', amount = Finite 20, category = ''Food'',
                 subcategory = Some '''', note_col = Some ''lunch''\<rparr>] 3)"
  using
    delete_expense_exact [of
      "[\<lparr>id_col = 2, date = ''2024-01-01'', amount = Finite 10, category = ''Food'',
         subcategory = Some '''', note_col = Some ''''\<rparr>,
        \<lparr>id_col = 3, date = ''2024-01-01'', amount = Finite 20, category = ''Food'',
         subcategory = Some '''', note_col = Some ''lunch''\<rparr>]" 3
      "''2024-01-01''" "''Food''" "''''"]
    delete_expense_exact [of
      "[\<lparr>id_col = 2, date = ''2024-01-01'', amount = Finite 10, category = ''Food'',
         subcategory = Some '''', note_col = Some ''''\<rparr>,
        \<lparr>id_col = 3, date = ''2024-01-01'', amount = Finite 20, category = ''Food'',
         subcategory = Some '''', note_col = Some ''lunch''\<rparr>]" 3
      "''2024-01-01''" "''Food''" "''dinner''"]
  by simp

subsection \<open>No operation lets an exception escape\<close>

text \<open>
  A fault of the engine at the start of a call comes back as the error reply of that
  operation, with the file untouched.
\<close>

lemma storage_fault_is_reported:
  "add_expense (Some f) db d a c sub nt =
     (Returned (ErrorStatus (''Database error: '' @ str f)), db) \<and>
   list_expenses (Some f) db s e =
     (Returned (ErrorStatus (''Error listing expenses: '' @ str f)), db) \<and>
   summarize engine_sum (Some f) db s e cat =
     (Returned (ErrorStatus (''Error summarizing expenses: '' @ str f)), db) \<and>
   edit_expense (Some f) db d c na nd ns nn =
     (Returned (ErrorStatus (''Error editing expense: '' @ str f)), db) \<and>
   delete_expense (Some f) db d c dn =
     (Returned (ErrorStatus (''Error deleting expense: '' @ str f)), db)"
  by (simp add: add_expense_def list_expenses_def summarize_def edit_expense_def
      delete_expense_def)

text \<open>init_db, by contrast, raises the fault again.\<close>

lemma init_db_raises: "init_db (Some f) db = (Raised f, db)"
  by (simp add: init_db_def)

text \<open>
  C9. For every engine state, file and argument list, each of add_expense,
  list_expenses, summarize, edit_expense and delete_expense returns: either its success
  payload, or the error reply \<open>{"status": "error", "message": m}\<close> with the file
  unchanged. None of them ends in \<open>Raised\<close>. The amounts range over \<open>None\<close>, every
  \<open>int\<close> and every \<open>float\<close>, NaN included, and \<open>engine_sum\<close> over every function.
\<close>

theorem operations_never_raise:
  "((\<exists>i db'. add_expense io db d a c sub nt = (Returned (AddSuccess i), db')) \<or>
    (\<exists>m. add_expense io db d a c sub nt = (Returned (ErrorStatus m), db))) \<and>
   ((\<exists>xs. list_expenses io db s e = (Returned (ExpenseRows xs), db)) \<or>
    (\<exists>m. list_expenses io db s e = (Returned (ErrorStatus m), db))) \<and>
   ((\<exists>gs. summarize engine_sum io db s e cat = (Returned (SummaryRows gs), db)) \<or>
    (\<exists>m. summarize engine_sum io db s e cat = (Returned (ErrorStatus m), db))) \<and>
   ((\<exists>k db'. edit_expense io db d c na nd ns nn = (Returned (EditSuccess k), db')) \<or>
    (\<exists>m. edit_expense io db d c na nd ns nn = (Returned (ErrorStatus m), db))) \<and>
   ((\<exists>k db'. delete_expense io db d c dn = (Returned (DeleteSuccess k), db')) \<or>
    (\<exists>m. delete_expense io db d c dn = (Returned (ErrorStatus m), db)))"
proof -
  have add: "(\<exists>i db'. add_expense io db d a c sub nt = (Returned (AddSuccess i), db')) \<or>
    (\<exists>m. add_expense io db d a c sub nt = (Returned (ErrorStatus m), db))"
    by (auto simp: add_expense_def split: sum.splits prod.splits)
  have list: "(\<exists>xs. list_expenses io db s e = (Returned (ExpenseRows xs), db)) \<or>
    (\<exists>m. list_expenses io db s e = (Returned (ErrorStatus m), db))"
    by (auto simp: list_expenses_def split: sum.splits prod.splits)
  have summ: "(\<exists>gs. summarize engine_sum io db s e cat = (Returned (SummaryRows gs), db)) \<or>
    (\<exists>m. summarize engine_sum io db s e cat = (Returned (ErrorStatus m), db))"
    by (auto simp: summarize_def split: sum.splits prod.splits)
  have edit: "(\<exists>k db'. edit_expense io db d c na nd ns nn = (Returned (EditSuccess k), db')) \<or>
    (\<exists>m. edit_expense io db d c na nd ns nn = (Returned (ErrorStatus m), db))"
    by (auto simp: edit_expense_def split: sum.splits prod.splits)
  have del: "(\<exists>k db'. delete_expense io db d c dn = (Returned (DeleteSuccess k), db')) \<or>
    (\<exists>m. delete_expense io db d c dn = (Returned (ErrorStatus m), db))"
    by (auto simp: delete_expense_def split: sum.splits prod.splits)
  from add list summ edit del show ?thesis by blast
qed

subsection \<open>list_expenses\<close>

lemma between_dates_Some [simp]:
  "between_dates (Some s) (Some e) d \<longleftrightarrow> s \<le> d \<and> d \<le> e"
  by (simp add: between_dates_def)

lemma mset_order_by_date_id_desc [simp]: "mset (order_by_date_id_desc xs) = mset xs"
  by (simp add: order_by_date_id_desc_def)

lemma set_order_by_date_id_desc [simp]: "set (order_by_date_id_desc xs) = set xs"
  by (simp add: order_by_date_id_desc_def)

text \<open>The result of \<open>ORDER BY date DESC, id DESC\<close> is ordered as the clause says.\<close>

lemma sorted_order_by_date_id_desc:
  "sorted_wrt (\<lambda>a b. date b < date a \<or> (date b = date a \<and> id_col b \<le> id_col a))
     (order_by_date_id_desc xs)"
proof -
  have "sorted (map (\<lambda>r. (date r, id_col r)) (sort_key (\<lambda>r. (date r, id_col r)) xs))"
    by (rule sorted_sort_key)
  then have "sorted_wrt (\<lambda>a b. (date a, id_col a) \<le> (date b, id_col b))
               (sort_key (\<lambda>r. (date r, id_col r)) xs)"
    by (simp add: sorted_map)
  then have "sorted_wrt (\<lambda>a b. (date b, id_col b) \<le> (date a, id_col a))
               (order_by_date_id_desc xs)"
    by (simp add: order_by_date_id_desc_def sorted_wrt_rev)
  then show ?thesis
    by (rule sorted_wrt_mono_rel [rotated]) auto
qed

lemma length_filter_order_by_date_id_desc:
  "length (filter P (order_by_date_id_desc xs)) = length (filter P xs)"
proof -
  have "mset (filter P (order_by_date_id_desc xs)) = mset (filter P xs)"
    by simp
  then show ?thesis by (rule mset_eq_length)
qed

text \<open>
  C3. On an existing table, list_expenses(start_date, end_date) returns a list, never
  an error; the list holds exactly the records whose date \<open>d\<close> satisfies
  \<open>start_date \<le> d \<le> end_date\<close> in the lexicographic order of strings (each as often
  as the ledger holds it, hence the equation of multisets), and is ordered by
  descending date and, among equal dates, by descending id. When no record lies in the
  range, and in particular when \<open>end_date < start_date\<close>, the list is empty. The
  ledger is unchanged.
\<close>

theorem list_expenses_range:
  "\<exists>xs. list_expenses None (Expenses rows seq) (Some s) (Some e) =
          (Returned (ExpenseRows xs), Expenses rows seq) \<and>
        mset xs = filter_mset (\<lambda>r. s \<le> date r \<and> date r \<le> e) (mset rows) \<and>
        sorted_wrt (\<lambda>a b. date b < date a \<or> (date b = date a \<and> id_col b \<le> id_col a)) xs \<and>
        ((\<forall>r \<in> set rows. \<not> (s \<le> date r \<and> date r \<le> e)) \<longrightarrow> xs = []) \<and>
        (e < s \<longrightarrow> xs = [])"
proof -
  let ?sel = "filter (\<lambda>r. s \<le> date r \<and> date r \<le> e) rows"
  let ?xs = "order_by_date_id_desc ?sel"
  have run: "list_expenses None (Expenses rows seq) (Some s) (Some e) =
          (Returned (ExpenseRows ?xs), Expenses rows seq)"
    by (simp add: list_expenses_def)
  have ms: "mset ?xs = filter_mset (\<lambda>r. s \<le> date r \<and> date r \<le> e) (mset rows)"
    by simp
  have srt: "sorted_wrt (\<lambda>a b. date b < date a \<or> (date b = date a \<and> id_col b \<le> id_col a)) ?xs"
    by (rule sorted_order_by_date_id_desc)
  have none: "(\<forall>r \<in> set rows. \<not> (s \<le> date r \<and> date r \<le> e)) \<longrightarrow> ?xs = []"
  proof
    assume "\<forall>r \<in> set rows. \<not> (s \<le> date r \<and> date r \<le> e)"
    then have "?sel = []" by (simp add: filter_empty_conv)
    then show "?xs = []" by (simp add: order_by_date_id_desc_def)
  qed
  have empty: "e < s \<longrightarrow> ?xs = []"
  proof
    assume "e < s"
    then have "\<forall>r \<in> set rows. \<not> (s \<le> date r \<and> date r \<le> e)" by auto
    with none show "?xs = []" by blast
  qed
  from run ms srt none empty show ?thesis by blast
qed

text \<open>
  A ledger of four records listed over January 2024, both bounds included, and a
  range whose end precedes its start.
\<close>

theorem list_expenses_range_witness:
  "list_expenses None
     (Expenses [\<lparr>id_col = 2, date = ''2024-01-01'', amount = Finite 10, category = ''Food'',
                 subcategory = Some '''', note_col = Some ''''\<rparr>,
                \<lparr>id_col = 3, date = ''2024-01-31'', amount = Finite 20, category = ''Travel'',
                 subcategory = Some '''', note_col = Some ''''\<rparr>,
                \<lparr>id_col = 4, date = ''2024-01-01'', amount = Finite 30, category = ''Food'',
                 subcategory = Some '''', note_col = Some ''''\<rparr>,
                \<lparr>id_col = 5, date = ''2024-02-01'', amount = Finite 40, category = ''Food'',
                 subcategory = Some '''', note_col = Some ''''\<rparr>] 5)
     (Some ''2024-01-01'') (Some ''2024-01-31'') =
     (Returned (ExpenseRows
        [\<lparr>id_col = 3, date = ''2024-01-31'', amount = Finite 20, category = ''Travel'',
          subcategory = Some '''', note_col = Some ''''\<rparr>,
         \<lparr>id_col = 4, date = ''2024-01-01'', amount = Finite 30, category = ''Food'',
          subcategory = Some '''', note_col = Some ''''\<rparr>,
         \<lparr>id_col = 2, date = ''2024-01-01'', amount = Finite 10, category = ''Food'',
          subcategory = Some '''', note_col = Some ''''\<rparr>]),
      Expenses [\<lparr>id_col = 2, date = ''2024-01-01'', amount = Finite 10, category = ''Food'',
                 subcategory = Some '''', note_col = Some ''''\<rparr>,
                \<lparr>id_col = 3, date = ''2024-01-31'', amount = Finite 20, category = ''Travel'',
                 subcategory = Some '''', note_col = Some ''''\<rparr>,
                \<lparr>id_col = 4, date = ''2024-01-01'', amount = Finite 30, category = ''Food'',
                 subcategory = Some '''', note_col = Some ''''\<rparr>,
                \<lparr>id_col = 5, date = ''2024-02-01'', amount = Finite 40, category = ''Food'',
                 subcategory = Some '''', note_col = Some ''''\<rparr>] 5) \<and>
   list_expenses None
     (Expenses [\<lparr>id_col = 2, date = ''2024-01-01'', amount = Finite 10, category = ''Food'',
                 subcategory = Some '''', note_col = Some ''''\<rparr>] 2)
     (Some ''2024-01-31'') (Some ''2024-01-01'') =
     (Returned (ExpenseRows []),
      Expenses [\<lparr>id_col = 2, date = ''2024-01-01'', amount = Finite 10, category = ''Food'',
                 subcategory = Some '''', note_col = Some ''''\<rparr>] 2)"
proof -
  have a: "list_expenses None
     (Expenses [\<lparr>id_col = 2, date = ''2024-01-01'', amount = Finite 10, category = ''Food'',
                 subcategory = Some '''', note_col = Some ''''\<rparr>] 2)
     (Some ''2024-01-31'') (Some ''2024-01-01'') =
     (Returned (ExpenseRows []),
      Expenses [\<lparr>id_col = 2, date = ''2024-01-01'', amount = Finite 10, category = ''Food'',
                 subcategory = Some '''', note_col = Some ''''\<rparr>] 2)"
    using list_expenses_range [of
      "[\<lparr>id_col = 2, date = ''2024-01-01'', amount = Finite 10, category = ''Food'',
         subcategory = Some '''', note_col = Some ''''\<rparr>]" 2 "''2024-01-31''" "''2024-01-01''"]
    by auto
  show ?thesis
    using a
    by (simp add: list_expenses_def order_by_date_id_desc_def)
qed

subsection \<open>add_expense, then list_expenses\<close>

text \<open>
  When add_expense adds no record: the amount is \<open>None\<close> or NaN (NOT NULL fails), or
  an \<open>int\<close> beyond 64 bits (it cannot be bound). The reply is the error reply and
  the file is unchanged.
\<close>

lemma add_expense_rejected_amount:
  assumes "a = None \<or> a = Some PyNaN \<or> (\<exists>k. a = Some (PyInt k) \<and> \<not> (- (2 ^ 63) \<le> k \<and> k < 2 ^ 63))"
  shows "\<exists>m. add_expense None (Expenses rows seq) d a c sub nt =
           (Returned (ErrorStatus m), Expenses rows seq)"
proof -
  from assms have "bind_amount a = Inr None \<or> (\<exists>e. bind_amount a = Inl e)"
    by auto
  then obtain e where
    "insert_row d a c (arg_default (Some []) sub) (arg_default (Some []) nt) rows seq = Inl e"
    using insert_row_null_amount insert_row_unbound_amount by blast
  then show ?thesis by (simp add: add_expense_def)
qed

text \<open>
  C7, as the claim states it: the listing returns the added record with all supplied
  field values intact. Not the amount when it is an \<open>int\<close> of more than 53 bits:
  on the initialized empty store, add_expense("2024-01-01", 9007199254740993, "Food")
  succeeds, and the listing returns the record with the amount 9007199254740992.
\<close>

theorem add_then_list_amount_counterexample:
  "fst (list_expenses None
          (snd (add_expense None (Expenses [] 1) (Some ''2024-01-01'')
                  (Some (PyInt 9007199254740993)) (Some ''Food'') Omitted Omitted))
          (Some ''2024-01-01'') (Some ''2024-01-31'')) =
     Returned (ExpenseRows
       [\<lparr>id_col = 2, date = ''2024-01-01'', amount = Finite 9007199254740992,
         category = ''Food'', subcategory = Some [], note_col = Some []\<rparr>]) \<and>
   int64_to_double 9007199254740993 \<noteq> of_int 9007199254740993"
proof -
  have bound: "bind_amount (Some (PyInt 9007199254740993)) =
                 Inr (Some (Finite 9007199254740992))"
    by (simp add: int64_to_double_rounds)
  have "snd (add_expense None (Expenses [] 1) (Some ''2024-01-01'')
                  (Some (PyInt 9007199254740993)) (Some ''Food'') Omitted Omitted) =
        Expenses [\<lparr>id_col = 2, date = ''2024-01-01'', amount = Finite 9007199254740992,
                   category = ''Food'', subcategory = Some [], note_col = Some []\<rparr>] 2"
    by (simp add: add_expense_def insert_row_ok [OF bound])
  then have "fst (list_expenses None
          (snd (add_expense None (Expenses [] 1) (Some ''2024-01-01'')
                  (Some (PyInt 9007199254740993)) (Some ''Food'') Omitted Omitted))
          (Some ''2024-01-01'') (Some ''2024-01-31'')) =
     Returned (ExpenseRows
       [\<lparr>id_col = 2, date = ''2024-01-01'', amount = Finite 9007199254740992,
         category = ''Food'', subcategory = Some [], note_col = Some []\<rparr>])"
    by (simp add: list_expenses_def order_by_date_id_desc_def)
  then show ?thesis by (simp add: int64_to_double_rounds)
qed

text \<open>
  C7, amended: the amount comes back as the REAL column holds it. While the ids are
  not used up, add_expense with a date, a category and an amount that is a \<open>float\<close>
  other than NaN or an \<open>int\<close> of at most 64 bits succeeds and returns an id \<open>i\<close>; a
  list_expenses that follows, over any range that contains the date, succeeds and its
  result holds the record with id \<open>i\<close>, with exactly the date, category, subcategory
  and note that were passed (an omitted subcategory or note being the empty string)
  and with the amount \<open>x\<close>: the \<open>float\<close> itself, or the double nearest to the
  \<open>int\<close>, which is the \<open>int\<close> itself when its magnitude is at most \<open>2^53\<close>. That
  record is the only one of the result with id \<open>i\<close>, and \<open>i\<close> is fresh: larger than
  the counter and than the id of every record the ledger held before.
\<close>

theorem add_then_list:
  assumes room: "max seq (max_rowid rows) < MAX_ROWID"
    and range: "s \<le> d" "d \<le> e"
    and amount: "a = PyFloat x \<or>
                 (\<exists>k. a = PyInt k \<and> - (2 ^ 63) \<le> k \<and> k < 2 ^ 63 \<and> x = Finite (int64_to_double k))"
  shows "\<exists>i db' xs.
    add_expense None (Expenses rows seq) (Some d) (Some a) (Some c) sub nt =
      (Returned (AddSuccess i), db') \<and>
    list_expenses None db' (Some s) (Some e) = (Returned (ExpenseRows xs), db') \<and>
    \<lparr>id_col = i, date = d, amount = x, category = c,
     subcategory = (case sub of Omitted \<Rightarrow> Some '''' | Passed v \<Rightarrow> v),
     note_col = (case nt of Omitted \<Rightarrow> Some '''' | Passed v \<Rightarrow> v)\<rparr> \<in> set xs \<and>
    length (filter (\<lambda>r. id_col r = i) xs) = 1 \<and>
    seq < i \<and> (\<forall>r \<in> set rows. id_col r < i) \<and>
    (\<forall>k. a = PyInt k \<and> \<bar>k\<bar> \<le> 2 ^ 53 \<longrightarrow> x = Finite (of_int k))"
proof -
  let ?i = "max seq (max_rowid rows) + 1"
  let ?new = "\<lparr>id_col = ?i, date = d, amount = x, category = c,
     subcategory = (case sub of Omitted \<Rightarrow> Some '''' | Passed v \<Rightarrow> v),
     note_col = (case nt of Omitted \<Rightarrow> Some '''' | Passed v \<Rightarrow> v)\<rparr>"
  let ?db = "Expenses (rows @ [?new]) ?i"
  let ?xs = "order_by_date_id_desc (filter (\<lambda>r. s \<le> date r \<and> date r \<le> e) (rows @ [?new]))"
  have sub: "arg_default (Some '''') sub = (case sub of Omitted \<Rightarrow> Some '''' | Passed v \<Rightarrow> v)"
    by (cases sub) simp_all
  have nt: "arg_default (Some '''') nt = (case nt of Omitted \<Rightarrow> Some '''' | Passed v \<Rightarrow> v)"
    by (cases nt) simp_all
  from amount have bound: "bind_amount (Some a) = Inr (Some x)"
    by auto
  have exact: "\<forall>k. a = PyInt k \<and> \<bar>k\<bar> \<le> 2 ^ 53 \<longrightarrow> x = Finite (of_int k)"
    using amount by (auto simp: int64_to_double_exact)
  have add: "add_expense None (Expenses rows seq) (Some d) (Some a) (Some c) sub nt =
      (Returned (AddSuccess ?i), ?db)"
    by (simp add: add_expense_def insert_row_ok [OF bound room] sub nt)
  have list: "list_expenses None ?db (Some s) (Some e) = (Returned (ExpenseRows ?xs), ?db)"
    by (simp add: list_expenses_def)
  have mem: "?new \<in> set ?xs"
    using range by simp
  have old: "\<forall>r \<in> set rows. id_col r < ?i"
    using max_rowid_ge by fastforce
  have "filter (\<lambda>r. id_col r = ?i) (filter (\<lambda>r. s \<le> date r \<and> date r \<le> e) rows) = []"
    using old by (auto simp: filter_empty_conv)
  then have "filter (\<lambda>r. id_col r = ?i)
               (filter (\<lambda>r. s \<le> date r \<and> date r \<le> e) (rows @ [?new])) = [?new]"
    using range by simp
  then have one: "length (filter (\<lambda>r. id_col r = ?i) ?xs) = 1"
    by (simp only: length_filter_order_by_date_id_desc list.size)
  have "seq < ?i" by simp
  with add list mem one old exact show ?thesis by blast
qed

text \<open>
  Adding a record of 15 January with the amount 40 passed as an \<open>int\<close> to a ledger of
  one record, with the subcategory left out, and listing 10 to 31 January: the amount
  comes back as the double 40.
\<close>

theorem add_then_list_witness:
  "add_expense None
     (Expenses [\<lparr>id_col = 2, date = ''2024-01-01'', amount = Finite 12.5,
                 category = ''Food & Dining'', subcategory = Some [], note_col = Some []\<rparr>] 2)
     (Some ''2024-01-15'') (Some (PyInt 40)) (Some ''Travel'') Omitted (Passed (Some ''train'')) =
     (Returned (AddSuccess 3),
      Expenses [\<lparr>id_col = 2, date = ''2024-01-01'', amount = Finite 12.5,
                 category = ''Food & Dining'', subcategory = Some [], note_col = Some []\<rparr>,
                \<lparr>id_col = 3, date = ''2024-01-15'', amount = Finite 40,
                 category = ''Travel'', subcategory = Some [], note_col = Some ''train''\<rparr>] 3) \<and>
   list_expenses None
     (Expenses [\<lparr>id_col = 2, date = ''2024-01-01'', amount = Finite 12.5,
                 category = ''Food & Dining'', subcategory = Some [], note_col = Some []\<rparr>,
                \<lparr>id_col = 3, date = ''2024-01-15'', amount = Finite 40,
                 category = ''Travel'', subcategory = Some [], note_col = Some ''train''\<rparr>] 3)
     (Some ''2024-01-10'') (Some ''2024-01-31'') =
     (Returned (ExpenseRows
        [\<lparr>id_col = 3, date = ''2024-01-15'', amount = Finite 40,
          category = ''Travel'', subcategory = Some [], note_col = Some ''train''\<rparr>]),
      Expenses [\<lparr>id_col = 2, date = ''2024-01-01'', amount = Finite 12.5,
                 category = ''Food & Dining'', subcategory = Some [], note_col = Some []\<rparr>,
                \<lparr>id_col = 3, date = ''2024-01-15'', amount = Finite 40,
                 category = ''Travel'', subcategory = Some [], note_col = Some ''train''\<rparr>] 3)"
proof -
  have room: "max 2 (max_rowid
      [\<lparr>id_col = 2, date = ''2024-01-01'', amount = Finite 12.5,
        category = ''Food & Dining'', subcategory = Some [], note_col = Some []\<rparr>]) < MAX_ROWID"
    by (simp add: max_rowid_def MAX_ROWID_def)
  have range: "''2024-01-10'' \<le> ''2024-01-15''" "''2024-01-15'' \<le> ''2024-01-31''"
    by simp_all
  have forty: "int64_to_double 40 = 40"
    using int64_to_double_exact [of 40] by simp
  have amount: "PyInt 40 = PyFloat (Finite 40) \<or>
      (\<exists>k. PyInt 40 = PyInt k \<and> - (2 ^ 63) \<le> k \<and> k < 2 ^ 63 \<and>
           Finite 40 = Finite (int64_to_double k))"
    by (simp add: forty)
  have bound: "bind_amount (Some (PyInt 40)) = Inr (Some (Finite 40))"
    by (simp add: forty)
  show ?thesis
    using add_then_list [OF room range amount, of "''Travel''" Omitted "Passed (Some ''train'')"]
    by (simp add: add_expense_def list_expenses_def insert_row_ok forty
        max_rowid_def MAX_ROWID_def order_by_date_id_desc_def)
qed

subsection \<open>edit_expense\<close>

lemma set_fields_simps [simp]:
  "amount (set_fields a nd ns nn r) = a"
  "date (set_fields a nd ns nn r) = coalesce_text nd (date r)"
  "subcategory (set_fields a nd ns nn r) = coalesce ns (subcategory r)"
  "note_col (set_fields a nd ns nn r) = coalesce nn (note_col r)"
  "id_col (set_fields a nd ns nn r) = id_col r"
  "category (set_fields a nd ns nn r) = category r"
  by (simp_all add: set_fields_def)

text \<open>
  The amounts that the UPDATE does not store. NaN is bound as NULL, so it behaves as
  \<open>None\<close> does; an \<open>int\<close> beyond 64 bits cannot be bound, and the call returns the
  error reply whether or not a record matches. In both cases the file is unchanged.
\<close>

lemma edit_expense_nan:
  "edit_expense io db d c (Some PyNaN) nd ns nn = edit_expense io db d c None nd ns nn"
  by (cases "table_rows io db") (auto simp: edit_expense_def update_rows_def)

lemma edit_expense_overflow:
  "\<not> (- (2 ^ 63) \<le> k \<and> k < 2 ^ 63) \<Longrightarrow>
   edit_expense None (Expenses rows seq) d c (Some (PyInt k)) nd ns nn =
     (Returned (ErrorStatus
        ''Error editing expense: Python int too large to convert to SQLite INTEGER''),
      Expenses rows seq)"
  by (simp add: edit_expense_def update_rows_def)

text \<open>
  C1, as the claim states it: edit sets the amount of each matched record to
  \<open>new_amount\<close> unconditionally. Not when \<open>new_amount\<close> is the \<open>float\<close> NaN: the
  column is REAL NOT NULL and NaN is bound as NULL, so with a record that matches the
  call returns the error reply and the record keeps its amount 12.5.
\<close>

theorem edit_expense_nan_counterexample:
  "edit_expense None
     (Expenses [\<lparr>id_col = 2, date = ''2024-01-01'', amount = Finite 12.5,
                 category = ''Food & Dining'', subcategory = Some [], note_col = Some []\<rparr>] 2)
     (Some ''2024-01-01'') (Some ''Food & Dining'') (Some PyNaN) Omitted Omitted Omitted =
     (Returned (ErrorStatus
        ''Error editing expense: NOT NULL constraint failed: expenses.amount''),
      Expenses [\<lparr>id_col = 2, date = ''2024-01-01'', amount = Finite 12.5,
                 category = ''Food & Dining'', subcategory = Some [], note_col = Some []\<rparr>] 2)"
  by (simp add: edit_expense_def update_rows_def)

text \<open>
  C1, amended: the amount is set whenever the column accepts it. On an existing
  table, edit_expense(date, category, new_amount, ...) with a \<open>new_amount\<close> that is a
  \<open>float\<close> other than NaN or an \<open>int\<close> of at most 64 bits succeeds and reports the
  number of records whose date and category equal the arguments. The ledger keeps its
  length and order, and position by position: a record that matches has its amount set
  to \<open>x\<close>, whatever the other arguments are, where \<open>x\<close> is \<open>new_amount\<close> as the
  REAL column holds it: the \<open>float\<close> itself, or the double nearest to the \<open>int\<close>,
  which is the \<open>int\<close> itself when its magnitude is at most \<open>2^53\<close>; its date,
  subcategory and note are each the new value when one is passed and not null, and the
  old value when the argument is left out or null; its id and category are unchanged.
  A record that does not match is unchanged.
\<close>

theorem edit_expense_updates:
  assumes amount: "a = PyFloat x \<or>
                   (\<exists>j. a = PyInt j \<and> - (2 ^ 63) \<le> j \<and> j < 2 ^ 63 \<and> x = Finite (int64_to_double j))"
  shows "\<exists>rows'.
     edit_expense None (Expenses rows seq) (Some d) (Some c) (Some a) nd ns nn =
       (Returned (EditSuccess (length (filter (\<lambda>r. date r = d \<and> category r = c) rows))),
        Expenses rows' seq) \<and>
     length rows' = length rows \<and>
     (\<forall>k < length rows.
        if date (rows ! k) = d \<and> category (rows ! k) = c
        then amount (rows' ! k) = x \<and>
             date (rows' ! k) = (case nd of Passed (Some v) \<Rightarrow> v | _ \<Rightarrow> date (rows ! k)) \<and>
             subcategory (rows' ! k) =
               (case ns of Passed (Some v) \<Rightarrow> Some v | _ \<Rightarrow> subcategory (rows ! k)) \<and>
             note_col (rows' ! k) =
               (case nn of Passed (Some v) \<Rightarrow> Some v | _ \<Rightarrow> note_col (rows ! k)) \<and>
             id_col (rows' ! k) = id_col (rows ! k) \<and>
             category (rows' ! k) = category (rows ! k)
        else rows' ! k = rows ! k) \<and>
     (\<forall>j. a = PyInt j \<and> \<bar>j\<bar> \<le> 2 ^ 53 \<longrightarrow> x = Finite (of_int j))"
proof -
  let ?upd = "\<lambda>r. if date r = d \<and> category r = c
                   then set_fields x (arg_default None nd) (arg_default None ns)
                          (arg_default None nn) r
                   else r"
  from amount have bound: "bind_amount (Some a) = Inr (Some x)"
    by auto
  have exact: "\<forall>j. a = PyInt j \<and> \<bar>j\<bar> \<le> 2 ^ 53 \<longrightarrow> x = Finite (of_int j)"
    using amount by (auto simp: int64_to_double_exact)
  have run: "edit_expense None (Expenses rows seq) (Some d) (Some c) (Some a) nd ns nn =
       (Returned (EditSuccess (length (filter (\<lambda>r. date r = d \<and> category r = c) rows))),
        Expenses (map ?upd rows) seq)"
    by (simp add: edit_expense_def update_rows_def bound)
  have nd: "coalesce_text (arg_default None nd) y = (case nd of Passed (Some v) \<Rightarrow> v | _ \<Rightarrow> y)" for y
    by (simp split: arg.splits option.splits)
  have ns: "coalesce (arg_default None ns) y = (case ns of Passed (Some v) \<Rightarrow> Some v | _ \<Rightarrow> y)" for y
    by (simp split: arg.splits option.splits)
  have nn: "coalesce (arg_default None nn) y = (case nn of Passed (Some v) \<Rightarrow> Some v | _ \<Rightarrow> y)" for y
    by (simp split: arg.splits option.splits)
  have each: "\<forall>k < length rows.
        if date (rows ! k) = d \<and> category (rows ! k) = c
        then amount (map ?upd rows ! k) = x \<and>
             date (map ?upd rows ! k) = (case nd of Passed (Some v) \<Rightarrow> v | _ \<Rightarrow> date (rows ! k)) \<and>
             subcategory (map ?upd rows ! k) =
               (case ns of Passed (Some v) \<Rightarrow> Some v | _ \<Rightarrow> subcategory (rows ! k)) \<and>
             note_col (map ?upd rows ! k) =
               (case nn of Passed (Some v) \<Rightarrow> Some v | _ \<Rightarrow> note_col (rows ! k)) \<and>
             id_col (map ?upd rows ! k) = id_col (rows ! k) \<and>
             category (map ?upd rows ! k) = category (rows ! k)
        else map ?upd rows ! k = rows ! k"
    by (auto simp: nd ns nn)
  have "length (map ?upd rows) = length rows" by simp
  with run each exact show ?thesis by blast
qed

text \<open>
  The example of the specification extended by a note: of two records of 1 January the
  one in \<open>Food & Dining\<close> gets the amount 15 (passed as the \<open>float\<close> 15.0) and the
  note \<open>lunch\<close>, keeps its date (argument left out) and its subcategory (argument
  null); the other is untouched.
\<close>

theorem edit_expense_updates_witness:
  "edit_expense None
     (Expenses [\<lparr>id_col = 2, date = ''2024-01-01'', amount = Finite 12.5,
                 category = ''Food & Dining'', subcategory = Some [], note_col = Some []\<rparr>,
                \<lparr>id_col = 3, date = ''2024-01-01'', amount = Finite 40,
                 category = ''Travel'', subcategory = Some [], note_col = Some ''train''\<rparr>] 3)
     (Some ''2024-01-01'') (Some ''Food & Dining'') (Some (PyFloat (Finite 15))) Omitted
     (Passed None) (Passed (Some ''lunch'')) =
     (Returned (EditSuccess 1),
      Expenses [\<lparr>id_col = 2, date = ''2024-01-01'', amount = Finite 15,
                 category = ''Food & Dining'', subcategory = Some [], note_col = Some ''lunch''\<rparr>,
                \<lparr>id_col = 3, date = ''2024-01-01'', amount = Finite 40,
                 category = ''Travel'', subcategory = Some [], note_col = Some ''train''\<rparr>] 3)"
proof -
  have amount: "PyFloat (Finite 15) = PyFloat (Finite 15) \<or>
      (\<exists>j. PyFloat (Finite 15) = PyInt j \<and> - (2 ^ 63) \<le> j \<and> j < 2 ^ 63 \<and>
           Finite 15 = Finite (int64_to_double j))"
    by simp
  show ?thesis
    using edit_expense_updates [OF amount, of
      "[\<lparr>id_col = 2, date = ''2024-01-01'', amount = Finite 12.5,
         category = ''Food & Dining'', subcategory = Some [], note_col = Some []\<rparr>,
        \<lparr>id_col = 3, date = ''2024-01-01'', amount = Finite 40,
         category = ''Travel'', subcategory = Some [], note_col = Some ''train''\<rparr>]" 3
      "''2024-01-01''" "''Food & Dining''" Omitted "Passed None" "Passed (Some ''lunch'')"]
    by (simp add: edit_expense_def update_rows_def set_fields_def)
qed

subsection \<open>summarize\<close>

lemma sql_le_total_rank: "sql_le a b \<longleftrightarrow> total_rank a \<le> total_rank b"
  by (cases a rule: total_rank.cases; cases b rule: total_rank.cases) simp_all

lemma categories_of_groups:
  "map summary_category (group_by_category engine_sum rows) = sort (remdups (map category rows))"
  by (simp add: group_by_category_def comp_def)

lemma group_by_category_member:
  assumes "g \<in> set (group_by_category engine_sum rows)"
  shows "summary_category g \<in> category ` set rows"
    and "total_amount g =
           engine_sum (map amount (filter (\<lambda>r. category r = summary_category g) rows))"
    and "count_rows g = length (filter (\<lambda>r. category r = summary_category g) rows)"
    and "0 < count_rows g"
proof -
  from assms obtain c where c: "c \<in> category ` set rows"
    and g: "g = Summary c (engine_sum (map amount (filter (\<lambda>r. category r = c) rows)))
                  (length (filter (\<lambda>r. category r = c) rows))"
    by (auto simp: group_by_category_def)
  show "summary_category g \<in> category ` set rows" using c g by simp
  show "total_amount g =
           engine_sum (map amount (filter (\<lambda>r. category r = summary_category g) rows))"
    using g by simp
  show n: "count_rows g = length (filter (\<lambda>r. category r = summary_category g) rows)"
    using g by simp
  from c obtain r where "r \<in> set rows" "category r = c" by auto
  then have "r \<in> set (filter (\<lambda>r. category r = c) rows)" by simp
  then have "0 < length (filter (\<lambda>r. category r = c) rows)"
    by (rule length_pos_if_in_set)
  then show "0 < count_rows g" using g by simp
qed

lemma mset_order_by_total_desc [simp]: "mset (order_by_total_desc gs) = mset gs"
  by (simp add: order_by_total_desc_def)

lemma set_order_by_total_desc [simp]: "set (order_by_total_desc gs) = set gs"
  by (simp add: order_by_total_desc_def)

text \<open>The result of \<open>ORDER BY total_amount DESC\<close> is ordered as the clause says.\<close>

lemma sorted_order_by_total_desc:
  "sorted_wrt (\<lambda>a b. sql_le (total_amount b) (total_amount a)) (order_by_total_desc gs)"
proof -
  have "sorted (map (\<lambda>g. total_rank (total_amount g))
                  (sort_key (\<lambda>g. total_rank (total_amount g)) gs))"
    by (rule sorted_sort_key)
  then have "sorted_wrt (\<lambda>a b. total_rank (total_amount a) \<le> total_rank (total_amount b))
               (sort_key (\<lambda>g. total_rank (total_amount g)) gs)"
    by (simp only: sorted_map)
  then show ?thesis
    by (simp only: order_by_total_desc_def sorted_wrt_rev sql_le_total_rank)
qed

lemma distinct_categories_ordered:
  "distinct (map summary_category (order_by_total_desc (group_by_category engine_sum rows)))"
proof -
  have "mset (map summary_category (order_by_total_desc (group_by_category engine_sum rows))) =
        mset (map summary_category (group_by_category engine_sum rows))"
    by (simp only: mset_map mset_order_by_total_desc)
  moreover have "distinct (map summary_category (group_by_category engine_sum rows))"
    by (simp add: categories_of_groups)
  ultimately show ?thesis
    using mset_eq_imp_distinct_iff by blast
qed




subsection \<open>init_db on an existing table\<close>

text \<open>
  What a repeated init_db does while ids are left: it returns normally, uses up one
  id for the probe row, and keeps exactly the records whose category is not \<open>test\<close>.
  A ledger without such a record is therefore unchanged.
\<close>

lemma init_db_existing:
  "max seq (max_rowid rows) < MAX_ROWID \<Longrightarrow>
   init_db None (Expenses rows seq) =
     (Returned (),
      Expenses (filter (\<lambda>r. category r \<noteq> ''test'') rows) (max seq (max_rowid rows) + 1))"
proof -
  assume room: "max seq (max_rowid rows) < MAX_ROWID"
  have zero: "bind_amount (Some (PyInt 0)) = Inr (Some (Finite 0))"
    using bind_amount_small_int [of 0] by simp
  show ?thesis
    by (simp add: init_db_def insert_row_ok [OF zero room])
qed

lemma init_db_keeps_other_categories:
  "max seq (max_rowid rows) < MAX_ROWID \<Longrightarrow> \<forall>r \<in> set rows. category r \<noteq> ''test'' \<Longrightarrow>
   ledger (snd (init_db None (Expenses rows seq))) = rows"
  by (simp add: init_db_existing filter_id_conv)

end
